theory Spec2Isabelle
  imports Main "HOL-Library.AList"
begin

section \<open>Python values, exceptions and dictionaries\<close>

text \<open>
  The two modules pass Python dictionaries, lists and strings around, together with the
  response objects of the model backend (a message is a list of content blocks, each a text
  block, a tool-use block carrying an id, a name and an input, or a block of another type).
  One value type covers them. A dictionary is an association list in insertion order with
  distinct keys, as a Python \<^verbatim>\<open>dict\<close> is. \<open>PyObject\<close> stands for an object of an external
  library that the code only passes on (the content payload of a remote tool result).
\<close>

datatype pyval =
    PyNone
  | PyBool bool
  | PyInt int
  | PyStr string
  | PyList "pyval list"
  | PyDict "(string \<times> pyval) list"
  | PyObject string
  | PyBlock content_block
  | PyMessage "content_block list"
and content_block =
    TextBlock string
  | ToolUseBlock string string pyval
  | OtherBlock

type_synonym pydict = "(string \<times> pyval) list"

type_synonym message = "content_block list"

text \<open>
  \<open>TextBlock t\<close> is a block of type \<^verbatim>\<open>"text"\<close> with \<^verbatim>\<open>.text = t\<close>. \<open>ToolUseBlock i n a\<close> is a block of
  type \<^verbatim>\<open>"tool_use"\<close> with \<^verbatim>\<open>.id = i\<close>, \<^verbatim>\<open>.name = n\<close> and \<^verbatim>\<open>.input = a\<close>. \<open>OtherBlock\<close> is a block of
  any other type; the code reads nothing of it but its type. A message is the list
  \<^verbatim>\<open>response.content\<close>, the only attribute of a response that the code reads.
\<close>

text \<open>
  A raised exception, by its class name and the string that \<^verbatim>\<open>str(e)\<close> returns.
  \<open>PyException\<close> is an instance of a subclass of \<^verbatim>\<open>Exception\<close>, which an \<^verbatim>\<open>except Exception\<close>
  clause catches. \<open>PyBaseException\<close> is an instance of a class that derives from
  \<^verbatim>\<open>BaseException\<close> and not from \<^verbatim>\<open>Exception\<close> (\<^verbatim>\<open>KeyboardInterrupt\<close>, \<^verbatim>\<open>SystemExit\<close>,
  \<^verbatim>\<open>asyncio.CancelledError\<close>), which such a clause lets through.
\<close>

datatype exn = PyException string string | PyBaseException string string

fun str_exn :: "exn \<Rightarrow> string" where
  "str_exn (PyException c m) = m"
| "str_exn (PyBaseException c m) = m"

fun is_exception :: "exn \<Rightarrow> bool" where
  "is_exception (PyException c m) = True"
| "is_exception (PyBaseException c m) = False"

text \<open>
  \<^verbatim>\<open>repr\<close> of a string: single quotes, unless the string holds a single quote and no double
  quote; backslash, the enclosing quote, newline, carriage return and tab are escaped, and
  the other control characters of ASCII (below 32, and 127) are written \<^verbatim>\<open>\xNN\<close> with two
  lower-case hexadecimal digits. A string is its bytes here: the bytes from 128 on encode
  the characters outside ASCII and are kept, as \<^verbatim>\<open>repr\<close> keeps such a character when it is
  printable.
\<close>

definition hex_digit :: "nat \<Rightarrow> char" where
  "hex_digit n = ''0123456789abcdef'' ! (n mod 16)"

fun repr_char :: "char \<Rightarrow> char \<Rightarrow> string" where
  "repr_char q c =
     (if c = CHR 0x5C then [CHR 0x5C, CHR 0x5C]
      else if c = q then [CHR 0x5C, q]
      else if c = CHR 0x0A then [CHR 0x5C, CHR ''n'']
      else if c = CHR 0x0D then [CHR 0x5C, CHR ''r'']
      else if c = CHR 0x09 then [CHR 0x5C, CHR ''t'']
      else if (of_char c :: nat) < 32 \<or> (of_char c :: nat) = 127
      then [CHR 0x5C, CHR ''x'', hex_digit ((of_char c :: nat) div 16), hex_digit (of_char c :: nat)]
      else [c])"

definition repr_str :: "string \<Rightarrow> string" where
  "repr_str s =
     (let q = (if CHR 0x27 \<in> set s \<and> CHR 0x22 \<notin> set s then CHR 0x22 else CHR 0x27)
      in [q] @ concat (map (repr_char q) s) @ [q])"

fun join_comma :: "string list \<Rightarrow> string" where
  "join_comma [] = []"
| "join_comma [s] = s"
| "join_comma (s # t # ss) = s @ '', '' @ join_comma (t # ss)"

definition repr_str_list :: "string list \<Rightarrow> string" where
  "repr_str_list ss = ''['' @ join_comma (map repr_str ss) @ '']''"

definition ValueError :: "string \<Rightarrow> exn" where
  "ValueError m = PyException ''ValueError'' m"

definition KeyError :: "string \<Rightarrow> exn" where
  "KeyError k = PyException ''KeyError'' (repr_str k)"

definition AttributeError :: "string \<Rightarrow> exn" where
  "AttributeError m = PyException ''AttributeError'' m"

text \<open>\<^verbatim>\<open>d[k]\<close> raises \<^verbatim>\<open>KeyError\<close> on a missing key; \<^verbatim>\<open>d.get(k)\<close> is \<open>map_of d k\<close>.\<close>

definition getitem :: "pydict \<Rightarrow> string \<Rightarrow> exn + pyval" where
  "getitem d k = (case map_of d k of None \<Rightarrow> Inl (KeyError k) | Some v \<Rightarrow> Inr v)"

section \<open>The outside world\<close>

text \<open>
  A tool as the remote service's discovery call describes it (\<^verbatim>\<open>tool.name\<close>,
  \<^verbatim>\<open>tool.description\<close>, \<^verbatim>\<open>tool.inputSchema\<close>).
\<close>

record mcp_tool =
  t_name :: string
  t_description :: pyval
  t_inputSchema :: pyval

text \<open>
  The keyword arguments of \<^verbatim>\<open>client.messages.create\<close>; \<open>None\<close> is an argument that the call does
  not pass.
\<close>

record request =
  rq_model :: string
  rq_max_tokens :: int
  rq_system :: "string option"
  rq_tools :: "pydict list option"
  rq_messages :: "pydict list"

text \<open>
  Every call that leaves the process is recorded, in order, with what it returned or raised:
  a request to the model backend, or an invocation of a tool on the remote service.
\<close>

datatype event =
    ModelRequest request "exn + message"
  | RemoteCall string pyval "exn + pyval"

type_synonym trace = "event list"

text \<open>
  The collaborators are parameters. Each answer may depend on everything that happened
  before (the trace so far) and on the call's arguments, and is either a value or a raised
  exception: \<open>messages_create\<close> is the model backend, \<open>call_tool\<close> is
  \<^verbatim>\<open>session.call_tool(name, arguments)\<close> followed by reading \<^verbatim>\<open>.content\<close> of its result,
  \<open>list_tools\<close> is \<^verbatim>\<open>session.list_tools()\<close> followed by reading \<^verbatim>\<open>.tools\<close>, and \<open>json_dumps\<close> is the
  library function \<^verbatim>\<open>json.dumps\<close>, which raises on a value it cannot serialise.
  Console output and logging are not part of the model.
\<close>

record env =
  messages_create :: "trace \<Rightarrow> request \<Rightarrow> exn + message"
  call_tool :: "trace \<Rightarrow> string \<Rightarrow> pyval \<Rightarrow> exn + pyval"
  list_tools :: "exn + mcp_tool list"
  json_dumps :: "pyval \<Rightarrow> exn + string"

section \<open>The calendar client (mcp_calendar_client.py)\<close>

text \<open>
  \<^verbatim>\<open>CalendarMCPClient\<close>: the registry \<^verbatim>\<open>self.tools\<close>, a dictionary from tool name to tool. The
  session is the \<open>call_tool\<close> and \<open>list_tools\<close> of the environment.
\<close>

record client =
  c_tools :: "(string \<times> mcp_tool) list"

text \<open>
  \<^verbatim>\<open>_discover_tools\<close>: the dictionary comprehension keeps the first position of a repeated name
  and its last tool; an exception of the discovery call is raised again.
\<close>

definition discover_tools :: "env \<Rightarrow> client \<Rightarrow> exn + client" where
  "discover_tools env self =
     (case list_tools env of
        Inl e \<Rightarrow> Inl e
      | Inr ts \<Rightarrow> Inr (self\<lparr>c_tools := foldl (\<lambda>d tool. AList.update (t_name tool) tool d) [] ts\<rparr>))"

text \<open>\<^verbatim>\<open>get_available_tools\<close>: one dictionary per item of the registry, in its order.\<close>

definition get_available_tools :: "client \<Rightarrow> pydict list" where
  "get_available_tools self =
     map (\<lambda>(tool_name, tool).
            [(''name'', PyStr tool_name),
             (''description'', t_description tool),
             (''input_schema'', t_inputSchema tool)])
         (c_tools self)"

text \<open>
  \<^verbatim>\<open>execute_tool\<close>: a name that is not a key of the registry raises \<^verbatim>\<open>ValueError\<close> before
  anything else happens. Otherwise the remote call is made once; what it returns is wrapped
  in a success dictionary. What it raises is caught by \<^verbatim>\<open>except Exception\<close> and wrapped in a
  failure dictionary when it is an instance of \<^verbatim>\<open>Exception\<close>, and goes on to the caller when
  it is not.
\<close>

definition unknown_tool_message :: "client \<Rightarrow> string \<Rightarrow> string" where
  "unknown_tool_message self tool_name =
     ''Tool '' @ [CHR 0x27] @ tool_name @ [CHR 0x27] @ '' not available. Available tools: ''
       @ repr_str_list (map fst (c_tools self))"

definition success_result :: "string \<Rightarrow> pyval \<Rightarrow> pydict" where
  "success_result tool_name content =
     [(''success'', PyBool True), (''content'', content), (''tool_name'', PyStr tool_name)]"

definition failure_result :: "string \<Rightarrow> exn \<Rightarrow> pydict" where
  "failure_result tool_name e =
     [(''success'', PyBool False), (''error'', PyStr (str_exn e)), (''tool_name'', PyStr tool_name)]"

definition execute_tool ::
  "env \<Rightarrow> client \<Rightarrow> string \<Rightarrow> pyval \<Rightarrow> trace \<Rightarrow> (exn + pydict) \<times> trace" where
  "execute_tool env self tool_name arguments tr =
     (if tool_name \<notin> set (map fst (c_tools self))
      then (Inl (ValueError (unknown_tool_message self tool_name)), tr)
      else
        (let r = call_tool env tr tool_name arguments;
             tr' = tr @ [RemoteCall tool_name arguments r]
         in case r of
              Inr content \<Rightarrow> (Inr (success_result tool_name content), tr')
            | Inl e \<Rightarrow>
                if is_exception e then (Inr (failure_result tool_name e), tr') else (Inl e, tr')))"

text \<open>
  \<^verbatim>\<open>create_calendar_event\<close>: \<open>description\<close> and \<open>attendees\<close> default to \<^verbatim>\<open>None\<close>; each is added to
  the arguments only when it is truthy (\<^verbatim>\<open>if description:\<close>), that is neither \<^verbatim>\<open>None\<close> nor empty.
\<close>

definition create_calendar_event_args ::
  "string \<Rightarrow> string \<Rightarrow> string \<Rightarrow> string option \<Rightarrow> string list option \<Rightarrow> pydict" where
  "create_calendar_event_args summary start_time end_time description attendees =
     (let args0 =
            [(''summary'', PyStr summary),
             (''start'', PyDict [(''dateTime'', PyStr start_time),
                                 (''timeZone'', PyStr ''America/New_York'')]),
             (''end'', PyDict [(''dateTime'', PyStr end_time),
                               (''timeZone'', PyStr ''America/New_York'')])];
          args1 =
            (case description of
               None \<Rightarrow> args0
             | Some d \<Rightarrow>
                 if d \<noteq> [] then AList.update ''description'' (PyStr d) args0 else args0);
          args2 =
            (case attendees of
               None \<Rightarrow> args1
             | Some emails \<Rightarrow>
                 if emails \<noteq> []
                 then AList.update ''attendees''
                        (PyList (map (\<lambda>email. PyDict [(''email'', PyStr email)]) emails)) args1
                 else args1)
      in args2)"

definition create_calendar_event ::
  "env \<Rightarrow> client \<Rightarrow> string \<Rightarrow> string \<Rightarrow> string \<Rightarrow> string option \<Rightarrow> string list option
     \<Rightarrow> trace \<Rightarrow> (exn + pydict) \<times> trace" where
  "create_calendar_event env self summary start_time end_time description attendees tr =
     execute_tool env self ''create_calendar_event''
       (PyDict (create_calendar_event_args summary start_time end_time description attendees)) tr"

text \<open>
  \<^verbatim>\<open>list_events\<close>: \<open>time_min\<close> and \<open>time_max\<close> default to \<^verbatim>\<open>None\<close> and \<open>max_results\<close> to 10; for
  \<open>max_results\<close>, \<open>None\<close> is a call that does not pass the argument.
\<close>

definition list_events_args :: "string option \<Rightarrow> string option \<Rightarrow> int option \<Rightarrow> pydict" where
  "list_events_args time_min time_max max_results =
     (let args0 = [(''maxResults'', PyInt (case max_results of None \<Rightarrow> 10 | Some n \<Rightarrow> n))];
          args1 =
            (case time_min of
               None \<Rightarrow> args0
             | Some t \<Rightarrow> if t \<noteq> [] then AList.update ''timeMin'' (PyStr t) args0 else args0);
          args2 =
            (case time_max of
               None \<Rightarrow> args1
             | Some t \<Rightarrow> if t \<noteq> [] then AList.update ''timeMax'' (PyStr t) args1 else args1)
      in args2)"

definition list_events ::
  "env \<Rightarrow> client \<Rightarrow> string option \<Rightarrow> string option \<Rightarrow> int option
     \<Rightarrow> trace \<Rightarrow> (exn + pydict) \<times> trace" where
  "list_events env self time_min time_max max_results tr =
     execute_tool env self ''list_calendar_events''
       (PyDict (list_events_args time_min time_max max_results)) tr"

section \<open>The integration (claude_mcp_integration.py)\<close>

text \<open>
  \<^verbatim>\<open>ClaudeMCPIntegration\<close>: \<^verbatim>\<open>self.mcp_client\<close> is \<^verbatim>\<open>None\<close> until \<^verbatim>\<open>initialize_mcp\<close> has run; an
  attribute access on \<^verbatim>\<open>None\<close> raises \<^verbatim>\<open>AttributeError\<close>.
\<close>

record integration =
  mcp_client :: "client option"

definition none_has_no_attribute :: "string \<Rightarrow> exn" where
  "none_has_no_attribute a =
     AttributeError ([CHR 0x27] @ ''NoneType'' @ [CHR 0x27] @ '' object has no attribute ''
                       @ [CHR 0x27] @ a @ [CHR 0x27])"

text \<open>
  \<^verbatim>\<open>_format_tools_for_claude\<close>: the loop over \<^verbatim>\<open>mcp_tools\<close> appends one dictionary per tool to
  \<^verbatim>\<open>claude_tools\<close>; each of the three subscripts raises \<^verbatim>\<open>KeyError\<close> when the key is missing,
  in the order the dictionary display evaluates them.
\<close>

fun format_tools_loop :: "pydict list \<Rightarrow> pydict list \<Rightarrow> exn + pydict list" where
  "format_tools_loop [] claude_tools = Inr claude_tools"
| "format_tools_loop (tool # rest) claude_tools =
     (case getitem tool ''name'' of
        Inl e \<Rightarrow> Inl e
      | Inr n \<Rightarrow>
     (case getitem tool ''description'' of
        Inl e \<Rightarrow> Inl e
      | Inr d \<Rightarrow>
     (case getitem tool ''input_schema'' of
        Inl e \<Rightarrow> Inl e
      | Inr s \<Rightarrow>
          format_tools_loop rest
            (claude_tools @ [[(''name'', n), (''description'', d), (''input_schema'', s)]]))))"

definition format_tools_for_claude :: "pydict list \<Rightarrow> exn + pydict list" where
  "format_tools_for_claude mcp_tools = format_tools_loop mcp_tools []"

definition newline :: string where
  "newline = [CHR 0x0A]"

definition indent12 :: string where
  "indent12 = replicate 12 (CHR 0x20)"

definition system_message :: string where
  "system_message =
     ''You are an AI assistant with access to Google Calendar through MCP tools. '' @ newline
     @ indent12 @ ''You can help users create, list, update, and manage calendar events. '' @ newline
     @ indent12 @ newline
     @ indent12 @ ''When users ask for calendar operations:'' @ newline
     @ indent12 @ ''1. Use the appropriate MCP tool'' @ newline
     @ indent12 @ ''2. Format dates/times properly (ISO 8601 format)'' @ newline
     @ indent12 @ ''3. Provide clear confirmation of what was done'' @ newline
     @ indent12 @ newline
     @ indent12 @ ''Available calendar operations include creating events, listing events, updating events, etc.''"

definition first_request :: "pydict list \<Rightarrow> string \<Rightarrow> request" where
  "first_request claude_tools user_message =
     \<lparr>rq_model = ''claude-3-5-sonnet-20241022'',
      rq_max_tokens = 1000,
      rq_system = Some system_message,
      rq_tools = Some claude_tools,
      rq_messages = [[(''role'', PyStr ''user''), (''content'', PyStr user_message)]]\<rparr>"

text \<open>
  The follow-up request of a tool use: a fixed placeholder for the user's message, the
  content of the response being handled, and the serialised tool result under the id of the
  tool use.
\<close>

definition follow_up_request :: "message \<Rightarrow> string \<Rightarrow> string \<Rightarrow> request" where
  "follow_up_request response tool_id dumped =
     \<lparr>rq_model = ''claude-3-5-sonnet-20241022'',
      rq_max_tokens = 1000,
      rq_system = None,
      rq_tools = None,
      rq_messages =
        [[(''role'', PyStr ''user''), (''content'', PyStr ''Previous request'')],
         [(''role'', PyStr ''assistant''), (''content'', PyList (map PyBlock response))],
         [(''role'', PyStr ''user''),
          (''content'', PyList [PyDict [(''type'', PyStr ''tool_result''),
                                        (''tool_use_id'', PyStr tool_id),
                                        (''content'', PyStr dumped)]])]]\<rparr>"

text \<open>The entries that \<^verbatim>\<open>_handle_claude_response\<close> appends to \<^verbatim>\<open>results\<close>.\<close>

definition text_entry :: "string \<Rightarrow> pyval" where
  "text_entry t = PyDict [(''type'', PyStr ''text''), (''content'', PyStr t)]"

definition tool_execution_entry :: "string \<Rightarrow> string \<Rightarrow> pyval \<Rightarrow> pydict \<Rightarrow> pyval" where
  "tool_execution_entry tool_name tool_id tool_input tool_result =
     PyDict [(''type'', PyStr ''tool_execution''),
             (''tool_name'', PyStr tool_name),
             (''tool_id'', PyStr tool_id),
             (''input'', tool_input),
             (''result'', PyDict tool_result)]"

definition final_response_entry :: "string \<Rightarrow> pyval" where
  "final_response_entry t = PyDict [(''type'', PyStr ''final_response''), (''content'', PyStr t)]"

text \<open>The inner loop over the blocks of a follow-up response: its text blocks, in order.\<close>

fun final_responses :: "message \<Rightarrow> pyval list" where
  "final_responses [] = []"
| "final_responses (TextBlock t # bs) = final_response_entry t # final_responses bs"
| "final_responses (b # bs) = final_responses bs"

text \<open>
  The loop of \<^verbatim>\<open>_handle_claude_response\<close> over \<^verbatim>\<open>response.content\<close>, with the blocks still to
  handle, the \<^verbatim>\<open>results\<close> list and the trace as its state. An exception ends it at once: an
  unknown tool (from \<^verbatim>\<open>execute_tool\<close>), a tool result that \<^verbatim>\<open>json.dumps\<close> rejects, a follow-up
  request that fails.
\<close>

fun handle_blocks ::
  "env \<Rightarrow> integration \<Rightarrow> message \<Rightarrow> message \<Rightarrow> pyval list \<Rightarrow> trace
     \<Rightarrow> (exn + pyval list) \<times> trace" where
  "handle_blocks env self response [] results tr = (Inr results, tr)"
| "handle_blocks env self response (TextBlock t # rest) results tr =
     handle_blocks env self response rest (results @ [text_entry t]) tr"
| "handle_blocks env self response (OtherBlock # rest) results tr =
     handle_blocks env self response rest results tr"
| "handle_blocks env self response (ToolUseBlock tool_id tool_name tool_input # rest) results tr =
     (case mcp_client self of
        None \<Rightarrow> (Inl (none_has_no_attribute ''execute_tool''), tr)
      | Some c \<Rightarrow>
     (case execute_tool env c tool_name tool_input tr of
        (Inl e, tr1) \<Rightarrow> (Inl e, tr1)
      | (Inr tool_result, tr1) \<Rightarrow>
     (case json_dumps env (PyDict tool_result) of
        Inl e \<Rightarrow> (Inl e, tr1)
      | Inr dumped \<Rightarrow>
     (let rq = follow_up_request response tool_id dumped;
          r = messages_create env tr1 rq;
          tr2 = tr1 @ [ModelRequest rq r]
      in case r of
           Inl e \<Rightarrow> (Inl e, tr2)
         | Inr follow_up_response \<Rightarrow>
             handle_blocks env self response rest
               (results
                  @ [tool_execution_entry tool_name tool_id tool_input tool_result]
                  @ final_responses follow_up_response)
               tr2))))"

definition handle_claude_response ::
  "env \<Rightarrow> integration \<Rightarrow> message \<Rightarrow> trace \<Rightarrow> (exn + pydict) \<times> trace" where
  "handle_claude_response env self response tr =
     (case handle_blocks env self response response [] tr of
        (Inl e, tr') \<Rightarrow> (Inl e, tr')
      | (Inr results, tr') \<Rightarrow>
          (Inr [(''success'', PyBool True),
                (''results'', PyList results),
                (''raw_response'', PyMessage response)], tr'))"

text \<open>
  \<^verbatim>\<open>process_request\<close>: the body of the \<^verbatim>\<open>try\<close> block first, which returns a result or raises; then
  the function with its \<^verbatim>\<open>except Exception\<close> clause, which turns an instance of \<^verbatim>\<open>Exception\<close>
  into the failure dictionary and lets any other exception through: then the function
  returns nothing and raises.
\<close>

definition process_request_try ::
  "env \<Rightarrow> integration \<Rightarrow> string \<Rightarrow> trace \<Rightarrow> (exn + pydict) \<times> trace" where
  "process_request_try env self user_message tr =
     (case mcp_client self of
        None \<Rightarrow> (Inl (none_has_no_attribute ''get_available_tools''), tr)
      | Some c \<Rightarrow>
     (case format_tools_for_claude (get_available_tools c) of
        Inl e \<Rightarrow> (Inl e, tr)
      | Inr claude_tools \<Rightarrow>
     (let rq = first_request claude_tools user_message;
          r = messages_create env tr rq;
          tr1 = tr @ [ModelRequest rq r]
      in case r of
           Inl e \<Rightarrow> (Inl e, tr1)
         | Inr response \<Rightarrow> handle_claude_response env self response tr1)))"

definition failure_outcome :: "exn \<Rightarrow> pydict" where
  "failure_outcome e =
     [(''success'', PyBool False),
      (''error'', PyStr (''Failed to process request: '' @ str_exn e)),
      (''response'', PyNone)]"

definition process_request ::
  "env \<Rightarrow> integration \<Rightarrow> string \<Rightarrow> trace \<Rightarrow> (exn + pydict) \<times> trace" where
  "process_request env self user_message tr =
     (case process_request_try env self user_message tr of
        (Inr result, tr') \<Rightarrow> (Inr result, tr')
      | (Inl e, tr') \<Rightarrow>
          if is_exception e then (Inr (failure_outcome e), tr') else (Inl e, tr'))"

section \<open>The assistant (claude_mcp_integration.py)\<close>

text \<open>
  \<^verbatim>\<open>str.lower\<close> on the characters of a command. A string is its bytes here; the letters
  \<^verbatim>\<open>A\<close> to \<^verbatim>\<open>Z\<close> are mapped to \<^verbatim>\<open>a\<close> to \<^verbatim>\<open>z\<close> and every other byte is kept. Python lowers
  characters outside ASCII too, but none of them to a letter of \<^verbatim>\<open>quit\<close> or \<^verbatim>\<open>exit\<close>, so the
  comparison with these two words comes out the same.
\<close>

definition lower_char :: "char \<Rightarrow> char" where
  "lower_char c =
     (let n = (of_char c :: nat) in if 65 \<le> n \<and> n \<le> 90 then char_of (n + 32) else c)"

definition lower :: "string \<Rightarrow> string" where
  "lower s = map lower_char s"

record assistant =
  a_integration :: integration

definition process_command ::
  "env \<Rightarrow> assistant \<Rightarrow> string \<Rightarrow> trace \<Rightarrow> (exn + pydict) \<times> trace" where
  "process_command env self command tr =
     (if lower command \<in> set [''quit'', ''exit'']
      then (Inr [(''action'', PyStr ''quit'')], tr)
      else process_request env (a_integration self) command tr)"

section \<open>Vocabulary of the properties\<close>

text \<open>
  A tool specification \<open>spec\<close> is the adaptation of a descriptor \<open>tool\<close>: the descriptor has the
  three keys and \<open>spec\<close> holds exactly these three items, with the descriptor's values.
\<close>

definition adapted :: "pydict \<Rightarrow> pydict \<Rightarrow> bool" where
  "adapted tool spec =
     (case (map_of tool ''name'', map_of tool ''description'', map_of tool ''input_schema'') of
        (Some n, Some d, Some s) \<Rightarrow>
          spec = [(''name'', n), (''description'', d), (''input_schema'', s)]
      | _ \<Rightarrow> False)"

text \<open>The tool-use segments of a response, in order: id, name and input of each.\<close>

fun tool_uses :: "message \<Rightarrow> (string \<times> string \<times> pyval) list" where
  "tool_uses [] = []"
| "tool_uses (ToolUseBlock i n a # bs) = (i, n, a) # tool_uses bs"
| "tool_uses (b # bs) = tool_uses bs"

text \<open>
  The round trip of one tool-use segment: one remote invocation with the segment's name and
  input, then one follow-up request to the model under the segment's id.
\<close>

definition round_trip :: "message \<Rightarrow> string \<times> string \<times> pyval \<Rightarrow> event list \<Rightarrow> bool" where
  "round_trip response u evs =
     (case u of (tool_id, tool_name, tool_input) \<Rightarrow>
        \<exists>r dumped follow_up.
          evs = [RemoteCall tool_name tool_input r,
                 ModelRequest (follow_up_request response tool_id dumped) (Inr follow_up)])"

text \<open>
  The result dictionary of a remote call that returned, or raised an instance of
  \<^verbatim>\<open>Exception\<close>.
\<close>

definition result_of_call :: "string \<Rightarrow> exn + pyval \<Rightarrow> pydict" where
  "result_of_call tool_name r =
     (case r of
        Inr content \<Rightarrow> success_result tool_name content
      | Inl e \<Rightarrow> failure_result tool_name e)"

text \<open>
  Conditions on the collaborators, for one tool-use segment of a response, that hold
  whatever has happened before (for every trace). The segment goes through: its tool is
  registered, the remote call raises nothing but instances of \<^verbatim>\<open>Exception\<close>, \<^verbatim>\<open>json.dumps\<close>
  accepts the result dictionary, and the model answers the follow-up request.
\<close>

definition goes_through :: "env \<Rightarrow> client \<Rightarrow> message \<Rightarrow> string \<times> string \<times> pyval \<Rightarrow> bool" where
  "goes_through env c response u =
     (case u of (tool_id, tool_name, tool_input) \<Rightarrow>
        tool_name \<in> set (map fst (c_tools c))
        \<and> (\<forall>tr e. call_tool env tr tool_name tool_input = Inl e \<longrightarrow> is_exception e)
        \<and> (\<forall>tr. \<exists>dumped.
               json_dumps env
                 (PyDict (result_of_call tool_name (call_tool env tr tool_name tool_input)))
               = Inr dumped)
        \<and> (\<forall>tr dumped. \<exists>follow_up.
               messages_create env tr (follow_up_request response tool_id dumped)
               = Inr follow_up))"


fun is_remote_call :: "event \<Rightarrow> bool" where
  "is_remote_call (RemoteCall n a r) = True"
| "is_remote_call (ModelRequest rq r) = False"

fun is_model_request :: "event \<Rightarrow> bool" where
  "is_model_request (ModelRequest rq r) = True"
| "is_model_request (RemoteCall n a r) = False"

text \<open>
  Equality of two strings up to the case of ASCII letters, in the words of the
  specification ("case-insensitive"), to compare with the \<open>lower\<close> of the code: two
  characters are the same letter when they are equal, or one is an upper-case letter and the
  other is its lower-case form.
\<close>

definition same_letter :: "char \<Rightarrow> char \<Rightarrow> bool" where
  "same_letter a b =
     (a = b
      \<or> (65 \<le> (of_char a :: nat) \<and> (of_char a :: nat) \<le> 90 \<and> (of_char a :: nat) + 32 = of_char b)
      \<or> (65 \<le> (of_char b :: nat) \<and> (of_char b :: nat) \<le> 90 \<and> (of_char b :: nat) + 32 = of_char a))"

definition case_insensitive_eq :: "string \<Rightarrow> string \<Rightarrow> bool" where
  "case_insensitive_eq s t = list_all2 same_letter s t"

section \<open>Example sessions\<close>

text \<open>
  A client that has discovered two tools, and two environments in which the model asks for
  one tool use after a line of text. In the first the remote call raises an exception whose
  string is empty and the follow-up request is answered; in the second the remote call raises
  and the follow-up request raises too.
\<close>

definition example_client :: client where
  "example_client =
     \<lparr>c_tools =
        [(''list_calendar_events'',
          \<lparr>t_name = ''list_calendar_events'', t_description = PyStr ''List events'',
           t_inputSchema = PyDict [(''type'', PyStr ''object'')]\<rparr>),
         (''create_calendar_event'',
          \<lparr>t_name = ''create_calendar_event'', t_description = PyStr ''Create an event'',
           t_inputSchema = PyDict [(''type'', PyStr ''object'')]\<rparr>)]\<rparr>"

definition example_integration :: integration where
  "example_integration = \<lparr>mcp_client = Some example_client\<rparr>"

definition example_response :: message where
  "example_response =
     [TextBlock ''Let me check.'',
      ToolUseBlock ''toolu_1'' ''list_calendar_events'' (PyDict [(''maxResults'', PyInt 5)])]"

definition env_remote_fails :: env where
  "env_remote_fails =
     \<lparr>messages_create =
        (\<lambda>tr rq. case rq_system rq of
                    Some s \<Rightarrow> Inr example_response
                  | None \<Rightarrow> Inr [TextBlock ''The calendar is unreachable.'']),
      call_tool = (\<lambda>tr n a. Inl (PyException ''ClosedResourceError'' [])),
      list_tools = Inr [],
      json_dumps = (\<lambda>v. Inr ''{}'')\<rparr>"

definition env_follow_up_fails :: env where
  "env_follow_up_fails =
     \<lparr>messages_create =
        (\<lambda>tr rq. case rq_system rq of
                    Some s \<Rightarrow> Inr example_response
                  | None \<Rightarrow> Inl (PyException ''APIConnectionError'' ''Connection error.'')),
      call_tool = (\<lambda>tr n a. Inl (PyException ''McpError'' ''Invalid arguments'')),
      list_tools = Inr [],
      json_dumps = (\<lambda>v. Inr ''{}'')\<rparr>"

text \<open>
  A response with two tool uses and text around them, and an environment in which the model
  gives it, the remote service answers and the follow-up requests are answered. A response
  whose second tool use names a tool that is not registered, with its environment. An
  environment in which the first request to the model is interrupted from the keyboard.
\<close>

definition example_response_two :: message where
  "example_response_two =
     [TextBlock ''I will look, then book.'',
      ToolUseBlock ''toolu_1'' ''list_calendar_events'' (PyDict [(''maxResults'', PyInt 5)]),
      TextBlock ''Now the booking.'',
      ToolUseBlock ''toolu_2'' ''create_calendar_event'' (PyDict [(''summary'', PyStr ''Standup'')])]"

definition env_two_tools :: env where
  "env_two_tools =
     \<lparr>messages_create =
        (\<lambda>tr rq. case rq_system rq of
                    Some s \<Rightarrow> Inr example_response_two
                  | None \<Rightarrow> Inr [TextBlock ''Done.'']),
      call_tool = (\<lambda>tr n a. Inr (PyList [])),
      list_tools = Inr [],
      json_dumps = (\<lambda>v. Inr ''{}'')\<rparr>"




text \<open>A last environment, in which the model answers with text alone.\<close>

definition env_text_only :: env where
  "env_text_only =
     \<lparr>messages_create = (\<lambda>tr rq. Inr [TextBlock ''You have no events this week.'']),
      call_tool = (\<lambda>tr n a. Inr (PyList [PyObject ''TextContent''])),
      list_tools = Inr [],
      json_dumps = (\<lambda>v. Inr ''{}'')\<rparr>"

section \<open>The tool registry adapter\<close>

lemma format_tools_loop_Inr:
  "format_tools_loop ts acc = Inr r \<longleftrightarrow> (\<exists>cs. r = acc @ cs \<and> list_all2 adapted ts cs)"
proof (induction ts arbitrary: acc r)
  case Nil
  then show ?case by auto
next
  case (Cons tool rest)
  show ?case
    by (auto simp: Cons.IH getitem_def adapted_def list_all2_Cons1 split: option.splits)
qed

lemma format_tools_for_claude_Inr:
  "format_tools_for_claude ts = Inr cs \<longleftrightarrow> list_all2 adapted ts cs"
  by (simp add: format_tools_for_claude_def format_tools_loop_Inr)

lemma format_tools_loop_total:
  assumes "\<forall>tool \<in> set ts.
             map_of tool ''name'' \<noteq> None \<and> map_of tool ''description'' \<noteq> None
             \<and> map_of tool ''input_schema'' \<noteq> None"
  shows "\<exists>cs. format_tools_loop ts acc = Inr (acc @ cs)"
  using assms
proof (induction ts arbitrary: acc)
  case Nil
  then show ?case by simp
next
  case (Cons tool rest)
  from Cons.prems obtain n d s where
    f: "map_of tool ''name'' = Some n" "map_of tool ''description'' = Some d"
       "map_of tool ''input_schema'' = Some s"
    by auto
  from Cons.prems have
    "\<forall>tool \<in> set rest.
       map_of tool ''name'' \<noteq> None \<and> map_of tool ''description'' \<noteq> None
       \<and> map_of tool ''input_schema'' \<noteq> None"
    by simp
  from Cons.IH[OF this, of "acc @ [[(''name'', n), (''description'', d), (''input_schema'', s)]]"]
  show ?case by (auto simp: getitem_def f)
qed

lemma adapted_fields:
  "adapted tool spec \<Longrightarrow>
     map fst spec = [''name'', ''description'', ''input_schema''] \<and>
     map_of spec ''name'' = map_of tool ''name'' \<and>
     map_of spec ''description'' = map_of tool ''description'' \<and>
     map_of spec ''input_schema'' = map_of tool ''input_schema''"
  by (auto simp: adapted_def split: option.splits)

text \<open>What \<open>get_available_tools\<close> returns is already in the adapted form.\<close>

lemma format_get_available_tools:
  "format_tools_for_claude (get_available_tools c) = Inr (get_available_tools c)"
  unfolding format_tools_for_claude_Inr get_available_tools_def
  by (induction "c_tools c" arbitrary: c)
     (auto simp: list_all2_map1 list_all2_map2 adapted_def list.rel_refl_strong split: prod.splits)

text \<open>
  C6. For a list of tool descriptors (dictionaries that have the keys \<open>name\<close>, \<open>description\<close>
  and \<open>input_schema\<close>), \<open>format_tools_for_claude\<close> returns a list of the same length whose
  \<open>i\<close>-th element holds exactly these three keys, each with the value that the \<open>i\<close>-th
  descriptor has under it: one specification per descriptor, fields equal, order kept.
\<close>

theorem format_tools_for_claude_field_mapping:
  assumes "\<forall>tool \<in> set mcp_tools.
             map_of tool ''name'' \<noteq> None \<and> map_of tool ''description'' \<noteq> None
             \<and> map_of tool ''input_schema'' \<noteq> None"
  shows "\<exists>claude_tools.
           format_tools_for_claude mcp_tools = Inr claude_tools \<and>
           length claude_tools = length mcp_tools \<and>
           (\<forall>i < length mcp_tools.
              map fst (claude_tools ! i) = [''name'', ''description'', ''input_schema''] \<and>
              map_of (claude_tools ! i) ''name'' = map_of (mcp_tools ! i) ''name'' \<and>
              map_of (claude_tools ! i) ''description'' = map_of (mcp_tools ! i) ''description'' \<and>
              map_of (claude_tools ! i) ''input_schema'' = map_of (mcp_tools ! i) ''input_schema'')"
proof -
  from format_tools_loop_total[OF assms, of "[]"] obtain cs where
    cs: "format_tools_for_claude mcp_tools = Inr cs"
    by (auto simp: format_tools_for_claude_def)
  then have rel: "list_all2 adapted mcp_tools cs"
    by (simp add: format_tools_for_claude_Inr)
  then have len: "length cs = length mcp_tools"
    by (simp add: list_all2_lengthD)
  have "adapted (mcp_tools ! i) (cs ! i)" if "i < length mcp_tools" for i
    using rel that by (simp add: list_all2_nthD)
  with cs len show ?thesis
    using adapted_fields by blast
qed

theorem format_tools_for_claude_field_mapping_witness:
  "\<exists>claude_tools.
     format_tools_for_claude (get_available_tools example_client) = Inr claude_tools \<and>
     length claude_tools = 2 \<and>
     map_of (claude_tools ! 0) ''name'' = Some (PyStr ''list_calendar_events'') \<and>
     map_of (claude_tools ! 1) ''name'' = Some (PyStr ''create_calendar_event'')"
proof -
  have h: "\<forall>tool \<in> set (get_available_tools example_client).
             map_of tool ''name'' \<noteq> None \<and> map_of tool ''description'' \<noteq> None
             \<and> map_of tool ''input_schema'' \<noteq> None"
    by (simp add: get_available_tools_def example_client_def)
  from format_tools_for_claude_field_mapping[OF h] obtain cs where
    cs: "format_tools_for_claude (get_available_tools example_client) = Inr cs"
        "length cs = length (get_available_tools example_client)"
        "\<forall>i < length (get_available_tools example_client).
           map_of (cs ! i) ''name'' = map_of (get_available_tools example_client ! i) ''name''"
    by blast
  have len: "length (get_available_tools example_client) = 2"
    by (simp add: get_available_tools_def example_client_def)
  from cs(3) len have
    "map_of (cs ! 0) ''name'' = map_of (get_available_tools example_client ! 0) ''name''"
    "map_of (cs ! 1) ''name'' = map_of (get_available_tools example_client ! 1) ''name''"
    by simp_all
  then have
    "map_of (cs ! 0) ''name'' = Some (PyStr ''list_calendar_events'')"
    "map_of (cs ! 1) ''name'' = Some (PyStr ''create_calendar_event'')"
    by (simp_all add: get_available_tools_def example_client_def)
  with cs(1,2) len show ?thesis by simp
qed

text \<open>
  C7, as the code has it. \<open>format_tools_for_claude\<close> does not look at the value of a name: it
  returns a list exactly when every descriptor has the three keys (a missing key is the one
  thing it rejects, by \<^verbatim>\<open>KeyError\<close>), and then the names of the output are the names of the
  input, position by position, empty ones included.
\<close>

theorem format_tools_for_claude_no_name_validation:
  "((\<exists>claude_tools. format_tools_for_claude mcp_tools = Inr claude_tools) \<longleftrightarrow>
      (\<forall>tool \<in> set mcp_tools.
         map_of tool ''name'' \<noteq> None \<and> map_of tool ''description'' \<noteq> None
         \<and> map_of tool ''input_schema'' \<noteq> None))
   \<and> (\<forall>claude_tools. format_tools_for_claude mcp_tools = Inr claude_tools \<longrightarrow>
         map (\<lambda>spec. map_of spec ''name'') claude_tools
           = map (\<lambda>tool. map_of tool ''name'') mcp_tools)"
proof (intro conjI iffI allI impI)
  assume "\<exists>claude_tools. format_tools_for_claude mcp_tools = Inr claude_tools"
  then obtain cs where "list_all2 adapted mcp_tools cs"
    by (auto simp: format_tools_for_claude_Inr)
  then show "\<forall>tool \<in> set mcp_tools.
         map_of tool ''name'' \<noteq> None \<and> map_of tool ''description'' \<noteq> None
         \<and> map_of tool ''input_schema'' \<noteq> None"
    by (induction rule: list_all2_induct) (auto simp: adapted_def split: option.splits)
next
  assume "\<forall>tool \<in> set mcp_tools.
         map_of tool ''name'' \<noteq> None \<and> map_of tool ''description'' \<noteq> None
         \<and> map_of tool ''input_schema'' \<noteq> None"
  from format_tools_loop_total[OF this, of "[]"]
  show "\<exists>claude_tools. format_tools_for_claude mcp_tools = Inr claude_tools"
    by (simp add: format_tools_for_claude_def)
next
  fix claude_tools
  assume "format_tools_for_claude mcp_tools = Inr claude_tools"
  then have "list_all2 adapted mcp_tools claude_tools"
    by (simp add: format_tools_for_claude_Inr)
  then show "map (\<lambda>spec. map_of spec ''name'') claude_tools
               = map (\<lambda>tool. map_of tool ''name'') mcp_tools"
    by (induction rule: list_all2_induct) (auto dest: adapted_fields)
qed

text \<open>A descriptor whose name is the empty string is accepted and copied to the output.\<close>

theorem format_tools_for_claude_empty_name_counterexample:
  "format_tools_for_claude
     [[(''name'', PyStr []), (''description'', PyStr ''no name''), (''input_schema'', PyDict [])]]
   = Inr [[(''name'', PyStr []), (''description'', PyStr ''no name''),
           (''input_schema'', PyDict [])]]"
  by (simp add: format_tools_for_claude_def getitem_def)

theorem format_tools_for_claude_no_name_validation_witness:
  "(\<exists>claude_tools.
      format_tools_for_claude
        [[(''name'', PyStr []), (''description'', PyStr ''no name''), (''input_schema'', PyDict [])]]
      = Inr claude_tools)
   \<and> \<not> (\<exists>claude_tools. format_tools_for_claude [[(''name'', PyStr ''x'')]] = Inr claude_tools)"
  using format_tools_for_claude_no_name_validation
          [of "[[(''name'', PyStr []), (''description'', PyStr ''no name''),
                 (''input_schema'', PyDict [])]]"]
        format_tools_for_claude_no_name_validation [of "[[(''name'', PyStr ''x'')]]"]
  by simp

section \<open>The execution bridge and the convenience operations\<close>

lemma execute_tool_cases:
  "execute_tool env c n a tr = (res, tr1) \<Longrightarrow>
     (n \<notin> set (map fst (c_tools c)) \<and> res = Inl (ValueError (unknown_tool_message c n)) \<and> tr1 = tr)
   \<or> (n \<in> set (map fst (c_tools c)) \<and> tr1 = tr @ [RemoteCall n a (call_tool env tr n a)] \<and>
       (case call_tool env tr n a of
          Inr content \<Rightarrow> res = Inr (success_result n content)
        | Inl e \<Rightarrow> if is_exception e then res = Inr (failure_result n e) else res = Inl e))"
  by (auto simp: execute_tool_def Let_def split: sum.splits if_splits)

lemma execute_tool_failed_result:
  assumes "execute_tool env c n a tr = (Inr tool_result, tr1)"
      and "call_tool env tr n a = Inl e"
  shows "tool_result = failure_result n e"
  using execute_tool_cases[OF assms(1)] assms(2) by (auto split: if_splits)

text \<open>
  C1, as the code has it. For a tool name that is not a key of the registry, \<open>execute_tool\<close>
  makes no remote call (the trace is returned as it was) and raises \<^verbatim>\<open>ValueError\<close> with the
  unknown-tool message; it returns no result dictionary.
\<close>

theorem execute_tool_unknown_tool_raises:
  assumes "tool_name \<notin> set (map fst (c_tools self))"
  shows "execute_tool env self tool_name arguments tr
           = (Inl (PyException ''ValueError'' (unknown_tool_message self tool_name)), tr)"
  using assms by (simp add: execute_tool_def ValueError_def)

text \<open>
  With the two calendar tools registered, a call for \<^verbatim>\<open>delete_calendar\<close> does not yield a
  result with \<^verbatim>\<open>success = False\<close>: it raises.
\<close>

theorem execute_tool_unknown_tool_counterexample:
  "fst (execute_tool env_remote_fails example_client ''delete_calendar'' (PyDict []) [])
     = Inl (PyException ''ValueError''
              (''Tool '' @ [CHR 0x27] @ ''delete_calendar'' @ [CHR 0x27]
                 @ '' not available. Available tools: [''
                 @ [CHR 0x27] @ ''list_calendar_events'' @ [CHR 0x27] @ '', ''
                 @ [CHR 0x27] @ ''create_calendar_event'' @ [CHR 0x27] @ '']''))"
  by (simp add: execute_tool_def example_client_def ValueError_def unknown_tool_message_def
        repr_str_list_def repr_str_def Let_def)

theorem execute_tool_unknown_tool_raises_witness:
  "execute_tool env_remote_fails example_client ''delete_calendar'' (PyDict []) []
     = (Inl (PyException ''ValueError'' (unknown_tool_message example_client ''delete_calendar'')),
        [])"
proof -
  have h: "''delete_calendar'' \<notin> set (map fst (c_tools example_client))"
    by (simp add: example_client_def)
  from execute_tool_unknown_tool_raises[OF h] show ?thesis .
qed

text \<open>
  C9. A call of \<open>list_events\<close> that passes no result cap hands \<open>execute_tool\<close> the tool name
  \<^verbatim>\<open>list_calendar_events\<close> and an argument dictionary in which \<open>maxResults\<close> is 10; when
  neither bound of the time window is given the dictionary is this one item, and a bound that
  is not given leaves no key of its own (\<open>timeMin\<close>, \<open>timeMax\<close>).
\<close>

theorem list_events_default_arguments:
  "list_events env self time_min time_max None tr
     = execute_tool env self ''list_calendar_events''
         (PyDict (list_events_args time_min time_max None)) tr
   \<and> map_of (list_events_args time_min time_max None) ''maxResults'' = Some (PyInt 10)
   \<and> list_events_args None None None = [(''maxResults'', PyInt 10)]
   \<and> map_of (list_events_args None time_max None) ''timeMin'' = None
   \<and> map_of (list_events_args time_min None None) ''timeMax'' = None"
  by (simp add: list_events_def list_events_args_def Let_def update_conv' split: option.splits)

theorem list_events_default_arguments_witness:
  "snd (list_events env_remote_fails example_client None None None [])
     = [RemoteCall ''list_calendar_events'' (PyDict [(''maxResults'', PyInt 10)])
          (Inl (PyException ''ClosedResourceError'' []))]"
  using list_events_default_arguments [of env_remote_fails example_client None None "[]"]
  by (simp add: execute_tool_def example_client_def env_remote_fails_def)

text \<open>
  C10. In \<open>create_calendar_event\<close> an empty description gives the same argument dictionary as
  no description, and an empty attendee list the same as no attendee list; the dictionary
  then has no \<open>description\<close> key, respectively no \<open>attendees\<close> key. Whatever the arguments,
  \<open>start\<close> and \<open>end\<close> carry the given time and the time zone \<^verbatim>\<open>America/New_York\<close>, and this
  dictionary is what \<open>execute_tool\<close> receives under the name \<^verbatim>\<open>create_calendar_event\<close>.
\<close>

theorem create_calendar_event_optional_arguments:
  "create_calendar_event_args summary start_time end_time (Some []) attendees
     = create_calendar_event_args summary start_time end_time None attendees
   \<and> create_calendar_event_args summary start_time end_time description (Some [])
     = create_calendar_event_args summary start_time end_time description None
   \<and> map_of (create_calendar_event_args summary start_time end_time (Some []) attendees)
        ''description'' = None
   \<and> map_of (create_calendar_event_args summary start_time end_time description (Some []))
        ''attendees'' = None
   \<and> map_of (create_calendar_event_args summary start_time end_time description attendees)
        ''start''
     = Some (PyDict [(''dateTime'', PyStr start_time), (''timeZone'', PyStr ''America/New_York'')])
   \<and> map_of (create_calendar_event_args summary start_time end_time description attendees)
        ''end''
     = Some (PyDict [(''dateTime'', PyStr end_time), (''timeZone'', PyStr ''America/New_York'')])
   \<and> create_calendar_event env self summary start_time end_time description attendees tr
     = execute_tool env self ''create_calendar_event''
         (PyDict (create_calendar_event_args summary start_time end_time description attendees))
         tr"
  by (simp add: create_calendar_event_def create_calendar_event_args_def Let_def update_conv'
           split: option.splits)

theorem create_calendar_event_optional_arguments_witness:
  "create_calendar_event_args ''Standup'' ''2025-01-02T09:00:00'' ''2025-01-02T09:30:00''
     (Some []) (Some [])
   = [(''summary'', PyStr ''Standup''),
      (''start'', PyDict [(''dateTime'', PyStr ''2025-01-02T09:00:00''),
                          (''timeZone'', PyStr ''America/New_York'')]),
      (''end'', PyDict [(''dateTime'', PyStr ''2025-01-02T09:30:00''),
                        (''timeZone'', PyStr ''America/New_York'')])]"
  using create_calendar_event_optional_arguments
          [of "''Standup''" "''2025-01-02T09:00:00''" "''2025-01-02T09:30:00''" "Some []"
              "Some []"]
  by (simp add: create_calendar_event_args_def Let_def)

section \<open>The command loop's sentinel\<close>

lemma lower_char_eq_iff:
  assumes "97 \<le> (of_char b :: nat)" "(of_char b :: nat) \<le> 122"
  shows "lower_char a = b \<longleftrightarrow> same_letter a b"
proof (cases "65 \<le> (of_char a :: nat) \<and> (of_char a :: nat) \<le> 90")
  case True
  then have "lower_char a = char_of ((of_char a :: nat) + 32)"
    by (simp add: lower_char_def Let_def)
  moreover have "char_of ((of_char a :: nat) + 32) = b \<longleftrightarrow> (of_char a :: nat) + 32 = of_char b"
    using True by (auto simp: char_of_eq_iff take_bit_eq_mod)
  moreover have "a \<noteq> b" using True assms by auto
  ultimately show ?thesis using True assms by (auto simp: same_letter_def)
next
  case False
  then have "lower_char a = a" by (auto simp: lower_char_def Let_def)
  then show ?thesis using False assms by (auto simp: same_letter_def)
qed

text \<open>For a word of lower-case letters, \<open>lower s\<close> is the word exactly when \<open>s\<close> is the word
  up to case.\<close>

lemma lower_eq_iff:
  assumes "\<forall>b \<in> set w. 97 \<le> (of_char b :: nat) \<and> (of_char b :: nat) \<le> 122"
  shows "lower s = w \<longleftrightarrow> case_insensitive_eq s w"
  using assms
proof (induction s arbitrary: w)
  case Nil
  then show ?case by (auto simp: lower_def case_insensitive_eq_def)
next
  case (Cons a s)
  show ?case
  proof (cases w)
    case Nil
    then show ?thesis by (simp add: lower_def case_insensitive_eq_def)
  next
    case (Cons b w')
    with Cons.prems Cons.IH[of w'] show ?thesis
      by (simp add: lower_def case_insensitive_eq_def lower_char_eq_iff)
  qed
qed

lemma lower_quit: "lower s = ''quit'' \<longleftrightarrow> case_insensitive_eq s ''quit''"
  by (rule lower_eq_iff) simp

lemma lower_exit: "lower s = ''exit'' \<longleftrightarrow> case_insensitive_eq s ''exit''"
  by (rule lower_eq_iff) simp

text \<open>
  C8. \<open>process_command\<close> returns the quit action, with no call made (the trace is returned as
  it was), exactly when the command is \<^verbatim>\<open>quit\<close> or \<^verbatim>\<open>exit\<close> up to the case of its letters; any
  other command is a user turn: the result and the calls are those of \<open>process_request\<close> on
  the command.
\<close>

theorem process_command_sentinel:
  "process_command env self command tr =
     (if case_insensitive_eq command ''quit'' \<or> case_insensitive_eq command ''exit''
      then (Inr [(''action'', PyStr ''quit'')], tr)
      else process_request env (a_integration self) command tr)"
  by (simp add: process_command_def lower_quit lower_exit)

theorem process_command_sentinel_witness:
  "process_command env_remote_fails \<lparr>a_integration = example_integration\<rparr> ''QuIt'' []
     = (Inr [(''action'', PyStr ''quit'')], [])
   \<and> process_command env_remote_fails \<lparr>a_integration = example_integration\<rparr> ''quit now'' []
     = process_request env_remote_fails example_integration ''quit now'' []"
  using process_command_sentinel
          [of env_remote_fails "\<lparr>a_integration = example_integration\<rparr>" "''QuIt''" "[]"]
        process_command_sentinel
          [of env_remote_fails "\<lparr>a_integration = example_integration\<rparr>" "''quit now''" "[]"]
  by (simp add: case_insensitive_eq_def same_letter_def)

section \<open>The conversation orchestrator\<close>

subsection \<open>The loop over the response\<close>

text \<open>The trace only grows.\<close>

lemma handle_blocks_trace_extends:
  "handle_blocks env self response bs results tr = (r, tr') \<Longrightarrow> \<exists>new. tr' = tr @ new"
proof (induction env self response bs results tr rule: handle_blocks.induct)
  case (4 env self response tool_id tool_name tool_input rest results tr)
  then show ?case
    by (fastforce simp: Let_def dest: execute_tool_cases
          split: option.splits prod.splits sum.splits)
qed simp_all

text \<open>
  What a tool-use block has gone through when the loop ends without an exception: the client
  is there, the tool is registered and was invoked once, the result was serialised, the
  follow-up request was answered, and the loop went on with the rest.
\<close>

lemma handle_blocks_tool_use_Inr:
  assumes "handle_blocks env self response (ToolUseBlock i n a # rest) results tr
             = (Inr results', tr')"
  shows "\<exists>c tool_result dumped fu.
           mcp_client self = Some c \<and>
           execute_tool env c n a tr
             = (Inr tool_result, tr @ [RemoteCall n a (call_tool env tr n a)]) \<and>
           json_dumps env (PyDict tool_result) = Inr dumped \<and>
           messages_create env (tr @ [RemoteCall n a (call_tool env tr n a)])
             (follow_up_request response i dumped) = Inr fu \<and>
           handle_blocks env self response rest
             (results @ [tool_execution_entry n i a tool_result] @ final_responses fu)
             (tr @ [RemoteCall n a (call_tool env tr n a),
                    ModelRequest (follow_up_request response i dumped) (Inr fu)])
             = (Inr results', tr')"
proof -
  from assms obtain c where c: "mcp_client self = Some c"
    by (auto split: option.splits)
  from assms c obtain tool_result tr1 where
    ex: "execute_tool env c n a tr = (Inr tool_result, tr1)"
    by (auto split: prod.splits sum.splits)
  from execute_tool_cases[OF ex]
  have tr1: "tr1 = tr @ [RemoteCall n a (call_tool env tr n a)]"
    by auto
  from assms c ex obtain dumped where
    d: "json_dumps env (PyDict tool_result) = Inr dumped"
    by (auto split: sum.splits)
  from assms c ex d obtain fu where
    fu: "messages_create env tr1 (follow_up_request response i dumped) = Inr fu"
    by (auto simp: Let_def split: sum.splits)
  from assms c ex d fu
  have "handle_blocks env self response rest
          (results @ [tool_execution_entry n i a tool_result] @ final_responses fu)
          (tr1 @ [ModelRequest (follow_up_request response i dumped) (Inr fu)])
        = (Inr results', tr')"
    by (simp add: Let_def)
  with c ex d fu tr1 show ?thesis by auto
qed

text \<open>A response of text blocks only: one text entry per block, no call.\<close>

lemma handle_blocks_text_only:
  "handle_blocks env self response (map TextBlock ts) results tr
     = (Inr (results @ map text_entry ts), tr)"
  by (induction ts arbitrary: results) simp_all

text \<open>A segment that goes through, step by step.\<close>

lemma execute_tool_Inr_result:
  assumes "execute_tool env c n a tr = (Inr res, tr1)"
  shows "res = result_of_call n (call_tool env tr n a)"
  using execute_tool_cases[OF assms]
  by (auto simp: result_of_call_def split: sum.splits if_splits)

lemma execute_tool_goes_through:
  assumes "goes_through env c response (i, n, a)"
  shows "execute_tool env c n a tr
           = (Inr (result_of_call n (call_tool env tr n a)),
              tr @ [RemoteCall n a (call_tool env tr n a)])"
proof -
  from assms have reg: "n \<in> set (map fst (c_tools c))"
    and exc: "\<And>e. call_tool env tr n a = Inl e \<Longrightarrow> is_exception e"
    by (auto simp: goes_through_def)
  show ?thesis
  proof (cases "call_tool env tr n a")
    case (Inl e)
    with reg exc[OF Inl] show ?thesis
      by (simp add: execute_tool_def result_of_call_def)
  next
    case (Inr content)
    with reg show ?thesis
      by (simp add: execute_tool_def result_of_call_def)
  qed
qed

lemma handle_blocks_segment_goes_through:
  assumes "mcp_client self = Some c"
      and "goes_through env c response (i, n, a)"
  shows "\<exists>dumped fu.
           handle_blocks env self response (ToolUseBlock i n a # rest) results tr
             = handle_blocks env self response rest
                 (results
                    @ [tool_execution_entry n i a (result_of_call n (call_tool env tr n a))]
                    @ final_responses fu)
                 (tr @ [RemoteCall n a (call_tool env tr n a),
                        ModelRequest (follow_up_request response i dumped) (Inr fu)])"
proof -
  let ?r = "call_tool env tr n a"
  let ?tr1 = "tr @ [RemoteCall n a ?r]"
  from assms(2) have
    ds: "\<forall>tr. \<exists>dumped. json_dumps env (PyDict (result_of_call n (call_tool env tr n a)))
                       = Inr dumped" and
    fs: "\<forall>tr dumped. \<exists>fu. messages_create env tr (follow_up_request response i dumped)
                          = Inr fu"
    by (simp_all add: goes_through_def)
  from ds obtain dumped where
    d: "json_dumps env (PyDict (result_of_call n ?r)) = Inr dumped"
    by blast
  from fs obtain fu where
    fu: "messages_create env ?tr1 (follow_up_request response i dumped) = Inr fu"
    by blast
  have "handle_blocks env self response (ToolUseBlock i n a # rest) results tr
          = handle_blocks env self response rest
              (results @ [tool_execution_entry n i a (result_of_call n ?r)]
                 @ final_responses fu)
              (tr @ [RemoteCall n a ?r,
                     ModelRequest (follow_up_request response i dumped) (Inr fu)])"
    by (simp add: assms(1) execute_tool_goes_through[OF assms(2)] d fu Let_def)
  then show ?thesis by blast
qed

text \<open>
  A prefix of the response whose tool-use segments all go through is handled without an
  exception: the loop reaches the rest with more results and with the round trips of the
  prefix added to the trace, segment after segment.
\<close>

lemma handle_blocks_prefix:
  assumes "mcp_client self = Some c"
      and "\<forall>u \<in> set (tool_uses pre). goes_through env c response u"
  shows "\<exists>more segs.
           handle_blocks env self response (pre @ bs) results tr
             = handle_blocks env self response bs (results @ more) (tr @ concat segs) \<and>
           list_all2 (round_trip response) (tool_uses pre) segs"
  using assms(2)
proof (induction pre arbitrary: results tr)
  case Nil
  have "handle_blocks env self response ([] @ bs) results tr
          = handle_blocks env self response bs (results @ []) (tr @ concat []) \<and>
        list_all2 (round_trip response) (tool_uses []) []"
    by simp
  then show ?case by blast
next
  case (Cons b pre)
  show ?case
  proof (cases b)
    case (TextBlock t)
    with Cons.prems have "\<forall>u \<in> set (tool_uses pre). goes_through env c response u"
      by simp
    from Cons.IH[OF this, of "results @ [text_entry t]" tr] obtain more segs where
      "handle_blocks env self response (pre @ bs) (results @ [text_entry t]) tr
         = handle_blocks env self response bs ((results @ [text_entry t]) @ more)
             (tr @ concat segs)"
      "list_all2 (round_trip response) (tool_uses pre) segs"
      by blast
    then have
      "handle_blocks env self response ((b # pre) @ bs) results tr
         = handle_blocks env self response bs (results @ (text_entry t # more))
             (tr @ concat segs) \<and>
       list_all2 (round_trip response) (tool_uses (b # pre)) segs"
      by (simp add: TextBlock)
    then show ?thesis by blast
  next
    case OtherBlock
    with Cons.prems have "\<forall>u \<in> set (tool_uses pre). goes_through env c response u"
      by simp
    from Cons.IH[OF this, of results tr] obtain more segs where
      "handle_blocks env self response (pre @ bs) results tr
         = handle_blocks env self response bs (results @ more) (tr @ concat segs)"
      "list_all2 (round_trip response) (tool_uses pre) segs"
      by blast
    then have
      "handle_blocks env self response ((b # pre) @ bs) results tr
         = handle_blocks env self response bs (results @ more) (tr @ concat segs) \<and>
       list_all2 (round_trip response) (tool_uses (b # pre)) segs"
      by (simp add: OtherBlock)
    then show ?thesis by blast
  next
    case (ToolUseBlock i n a)
    with Cons.prems have g: "goes_through env c response (i, n, a)"
      and rest: "\<forall>u \<in> set (tool_uses pre). goes_through env c response u"
      by simp_all
    let ?r = "call_tool env tr n a"
    from handle_blocks_segment_goes_through[OF assms(1) g, of "pre @ bs" results tr]
    obtain dumped fu where
      step: "handle_blocks env self response (ToolUseBlock i n a # pre @ bs) results tr
               = handle_blocks env self response (pre @ bs)
                   (results @ [tool_execution_entry n i a (result_of_call n ?r)]
                      @ final_responses fu)
                   (tr @ [RemoteCall n a ?r,
                          ModelRequest (follow_up_request response i dumped) (Inr fu)])"
      by blast
    let ?seg = "[RemoteCall n a ?r,
                 ModelRequest (follow_up_request response i dumped) (Inr fu)]"
    let ?mine = "[tool_execution_entry n i a (result_of_call n ?r)] @ final_responses fu"
    from Cons.IH[OF rest, of "results @ ?mine" "tr @ ?seg"] obtain more segs where
      ih: "handle_blocks env self response (pre @ bs) (results @ ?mine) (tr @ ?seg)
             = handle_blocks env self response bs ((results @ ?mine) @ more)
                 ((tr @ ?seg) @ concat segs)"
          "list_all2 (round_trip response) (tool_uses pre) segs"
      by blast
    have rt: "round_trip response (i, n, a) ?seg"
      unfolding round_trip_def by auto
    have "handle_blocks env self response ((b # pre) @ bs) results tr
            = handle_blocks env self response bs (results @ (?mine @ more))
                (tr @ concat (?seg # segs)) \<and>
          list_all2 (round_trip response) (tool_uses (b # pre)) (?seg # segs)"
      using step ih rt by (simp add: ToolUseBlock)
    then show ?thesis by blast
  qed
qed


lemma round_trips_count:
  "list_all2 (round_trip response) us segs \<Longrightarrow>
     length (filter is_remote_call (concat segs)) = length us \<and>
     length (filter is_model_request (concat segs)) = length us"
  by (induction rule: list_all2_induct) (auto simp: round_trip_def)

text \<open>
  Every remote call of the loop that raised has its entry among the results, when the loop
  ends without an exception.
\<close>

lemma handle_blocks_failed_remote:
  "handle_blocks env self response bs results tr = (Inr results', tr') \<Longrightarrow>
     \<exists>new more. tr' = tr @ new \<and> results' = results @ more \<and>
       (\<forall>n a e. RemoteCall n a (Inl e) \<in> set new \<longrightarrow>
          (\<exists>i. ToolUseBlock i n a \<in> set bs \<and>
               tool_execution_entry n i a (failure_result n e) \<in> set more))"
proof (induction bs arbitrary: results tr)
  case Nil
  then show ?case by simp
next
  case (Cons b rest)
  show ?case
  proof (cases b)
    case (TextBlock t)
    with Cons.prems have
      "handle_blocks env self response rest (results @ [text_entry t]) tr = (Inr results', tr')"
      by simp
    from Cons.IH[OF this] obtain new more where
      "tr' = tr @ new" "results' = (results @ [text_entry t]) @ more"
      "\<forall>n a e. RemoteCall n a (Inl e) \<in> set new \<longrightarrow>
          (\<exists>i. ToolUseBlock i n a \<in> set rest \<and>
               tool_execution_entry n i a (failure_result n e) \<in> set more)"
      by blast
    then have "tr' = tr @ new \<and> results' = results @ ([text_entry t] @ more) \<and>
      (\<forall>n a e. RemoteCall n a (Inl e) \<in> set new \<longrightarrow>
          (\<exists>i. ToolUseBlock i n a \<in> set (b # rest) \<and>
               tool_execution_entry n i a (failure_result n e) \<in> set ([text_entry t] @ more)))"
      by fastforce
    then show ?thesis by blast
  next
    case OtherBlock
    with Cons.prems have
      "handle_blocks env self response rest results tr = (Inr results', tr')"
      by simp
    from Cons.IH[OF this] obtain new more where
      "tr' = tr @ new" "results' = results @ more"
      "\<forall>n a e. RemoteCall n a (Inl e) \<in> set new \<longrightarrow>
          (\<exists>i. ToolUseBlock i n a \<in> set rest \<and>
               tool_execution_entry n i a (failure_result n e) \<in> set more)"
      by blast
    then have "tr' = tr @ new \<and> results' = results @ more \<and>
      (\<forall>n a e. RemoteCall n a (Inl e) \<in> set new \<longrightarrow>
          (\<exists>i. ToolUseBlock i n a \<in> set (b # rest) \<and>
               tool_execution_entry n i a (failure_result n e) \<in> set more))"
      by fastforce
    then show ?thesis by blast
  next
    case (ToolUseBlock i n a)
    from handle_blocks_tool_use_Inr[OF Cons.prems[unfolded ToolUseBlock]]
    obtain c tool_result dumped fu where
      ex: "execute_tool env c n a tr
             = (Inr tool_result, tr @ [RemoteCall n a (call_tool env tr n a)])" and
      rest: "handle_blocks env self response rest
             (results @ [tool_execution_entry n i a tool_result] @ final_responses fu)
             (tr @ [RemoteCall n a (call_tool env tr n a),
                    ModelRequest (follow_up_request response i dumped) (Inr fu)])
             = (Inr results', tr')"
      by blast
    let ?seg = "[RemoteCall n a (call_tool env tr n a),
                 ModelRequest (follow_up_request response i dumped) (Inr fu)]"
    from Cons.IH[OF rest] obtain new more where
      new: "tr' = (tr @ ?seg) @ new" and
      more: "results'
               = (results @ [tool_execution_entry n i a tool_result] @ final_responses fu)
                   @ more" and
      IH: "\<forall>n a e. RemoteCall n a (Inl e) \<in> set new \<longrightarrow>
          (\<exists>i. ToolUseBlock i n a \<in> set rest \<and>
               tool_execution_entry n i a (failure_result n e) \<in> set more)"
      by blast
    let ?new = "?seg @ new"
    let ?more = "[tool_execution_entry n i a tool_result] @ final_responses fu @ more"
    have "\<exists>j. ToolUseBlock j n' a' \<in> set (b # rest) \<and>
               tool_execution_entry n' j a' (failure_result n' e) \<in> set ?more"
      if "RemoteCall n' a' (Inl e) \<in> set ?new" for n' a' e
    proof (cases "RemoteCall n' a' (Inl e) \<in> set new")
      case True
      with IH obtain j where "ToolUseBlock j n' a' \<in> set rest"
        "tool_execution_entry n' j a' (failure_result n' e) \<in> set more"
        by blast
      then show ?thesis by fastforce
    next
      case False
      with that have eq: "n' = n" "a' = a" "call_tool env tr n a = Inl e" by auto
      from execute_tool_failed_result[OF ex eq(3)] show ?thesis
        by (auto simp: eq ToolUseBlock)
    qed
    moreover have "tr' = tr @ ?new" "results' = results @ ?more"
      using new more by simp_all
    ultimately show ?thesis by blast
  qed
qed

text \<open>
  Every tool-use block has its entry among the results, with the result dictionary of its
  remote call, when the loop ends without an exception.
\<close>

lemma handle_blocks_results_extend:
  assumes "handle_blocks env self response bs results tr = (Inr results', tr')"
  shows "\<exists>more. results' = results @ more"
  using handle_blocks_failed_remote[OF assms] by blast

lemma handle_blocks_entries:
  "handle_blocks env self response bs results tr = (Inr results', tr') \<Longrightarrow>
   ToolUseBlock i n a \<in> set bs \<Longrightarrow>
     \<exists>tr0. tool_execution_entry n i a (result_of_call n (call_tool env tr0 n a))
             \<in> set (drop (length results) results')"
proof (induction bs arbitrary: results tr)
  case Nil
  then show ?case by simp
next
  case (Cons b rest)
  show ?case
  proof (cases b)
    case (TextBlock t)
    with Cons.prems have
      "handle_blocks env self response rest (results @ [text_entry t]) tr = (Inr results', tr')"
      "ToolUseBlock i n a \<in> set rest"
      by simp_all
    from Cons.IH[OF this] obtain tr0 where
      "tool_execution_entry n i a (result_of_call n (call_tool env tr0 n a))
         \<in> set (drop (length (results @ [text_entry t])) results')"
      by blast
    moreover have "set (drop (length (results @ [text_entry t])) results')
                     \<subseteq> set (drop (length results) results')"
      by (rule set_drop_subset_set_drop) simp
    ultimately show ?thesis by blast
  next
    case OtherBlock
    with Cons.prems have
      "handle_blocks env self response rest results tr = (Inr results', tr')"
      "ToolUseBlock i n a \<in> set rest"
      by simp_all
    from Cons.IH[OF this] show ?thesis .
  next
    case (ToolUseBlock j m x)
    from handle_blocks_tool_use_Inr[OF Cons.prems(1)[unfolded ToolUseBlock]]
    obtain c tool_result dumped fu where
      ex: "execute_tool env c m x tr
             = (Inr tool_result, tr @ [RemoteCall m x (call_tool env tr m x)])" and
      rest: "handle_blocks env self response rest
             (results @ [tool_execution_entry m j x tool_result] @ final_responses fu)
             (tr @ [RemoteCall m x (call_tool env tr m x),
                    ModelRequest (follow_up_request response j dumped) (Inr fu)])
             = (Inr results', tr')"
      by blast
    let ?mine = "[tool_execution_entry m j x tool_result] @ final_responses fu"
    from execute_tool_Inr_result[OF ex] have
      res: "tool_result = result_of_call m (call_tool env tr m x)" .
    show ?thesis
    proof (cases "ToolUseBlock i n a = b")
      case True
      then have eq: "i = j" "n = m" "a = x" by (simp_all add: ToolUseBlock)
      from handle_blocks_results_extend[OF rest] obtain more where
        "results' = (results @ ?mine) @ more"
        by blast
      then have "tool_execution_entry m j x tool_result \<in> set (drop (length results) results')"
        by simp
      with res eq show ?thesis by blast
    next
      case False
      with Cons.prems(2) have "ToolUseBlock i n a \<in> set rest" by auto
      from Cons.IH[OF rest this] obtain tr0 where
        "tool_execution_entry n i a (result_of_call n (call_tool env tr0 n a))
           \<in> set (drop (length (results @ ?mine)) results')"
        by blast
      moreover have "set (drop (length (results @ ?mine)) results')
                       \<subseteq> set (drop (length results) results')"
        by (rule set_drop_subset_set_drop) simp
      ultimately show ?thesis by blast
    qed
  qed
qed

subsection \<open>The turn\<close>

text \<open>The turn up to the loop: with a client, the first request is made and recorded.\<close>

lemma process_request_try_first:
  assumes "mcp_client self = Some c"
  shows "process_request_try env self user_message tr
           = (let rq = first_request (get_available_tools c) user_message;
                  r = messages_create env tr rq
              in case r of
                   Inl e \<Rightarrow> (Inl e, tr @ [ModelRequest rq r])
                 | Inr response \<Rightarrow>
                     handle_claude_response env self response (tr @ [ModelRequest rq r]))"
  by (simp add: process_request_try_def assms format_get_available_tools Let_def)

text \<open>A response whose tool-use segments all go through is handled to the end.\<close>

lemma handle_blocks_completes:
  assumes "mcp_client self = Some c"
      and "\<forall>u \<in> set (tool_uses response). goes_through env c response u"
  shows "\<exists>results segs.
           handle_blocks env self response response [] tr = (Inr results, tr @ concat segs) \<and>
           list_all2 (round_trip response) (tool_uses response) segs"
proof -
  from handle_blocks_prefix[OF assms, of "[]" "[]" tr] obtain more segs where
    "handle_blocks env self response (response @ []) [] tr
       = handle_blocks env self response [] ([] @ more) (tr @ concat segs)"
    "list_all2 (round_trip response) (tool_uses response) segs"
    by blast
  then have
    "handle_blocks env self response response [] tr = (Inr more, tr @ concat segs) \<and>
     list_all2 (round_trip response) (tool_uses response) segs"
    by simp
  then show ?thesis by blast
qed

text \<open>The turns of the example sessions, evaluated.\<close>

lemma example_turn_follow_up_fails:
  "process_request_try env_follow_up_fails example_integration ''List my events'' []
     = (Inl (PyException ''APIConnectionError'' ''Connection error.''),
        [ModelRequest (first_request (get_available_tools example_client) ''List my events'')
           (Inr example_response),
         RemoteCall ''list_calendar_events'' (PyDict [(''maxResults'', PyInt 5)])
           (Inl (PyException ''McpError'' ''Invalid arguments'')),
         ModelRequest (follow_up_request example_response ''toolu_1'' ''{}'')
           (Inl (PyException ''APIConnectionError'' ''Connection error.''))])"
  by (simp add: process_request_try_def example_integration_def format_get_available_tools
        env_follow_up_fails_def first_request_def follow_up_request_def Let_def
        handle_claude_response_def example_response_def execute_tool_def example_client_def)

lemma example_turn_remote_fails:
  "process_request env_remote_fails example_integration ''List my events'' []
     = (Inr [(''success'', PyBool True),
         (''results'',
          PyList
            [PyDict [(''type'', PyStr ''text''), (''content'', PyStr ''Let me check.'')],
             PyDict [(''type'', PyStr ''tool_execution''),
                     (''tool_name'', PyStr ''list_calendar_events''),
                     (''tool_id'', PyStr ''toolu_1''),
                     (''input'', PyDict [(''maxResults'', PyInt 5)]),
                     (''result'',
                      PyDict [(''success'', PyBool False), (''error'', PyStr []),
                              (''tool_name'', PyStr ''list_calendar_events'')])],
             PyDict [(''type'', PyStr ''final_response''),
                     (''content'', PyStr ''The calendar is unreachable.'')]]),
         (''raw_response'', PyMessage example_response)],
        [ModelRequest (first_request (get_available_tools example_client) ''List my events'')
           (Inr example_response),
         RemoteCall ''list_calendar_events'' (PyDict [(''maxResults'', PyInt 5)])
           (Inl (PyException ''ClosedResourceError'' [])),
         ModelRequest (follow_up_request example_response ''toolu_1'' ''{}'')
           (Inr [TextBlock ''The calendar is unreachable.''])])"
  by (simp add: process_request_def process_request_try_def example_integration_def
        format_get_available_tools env_remote_fails_def first_request_def follow_up_request_def
        Let_def handle_claude_response_def example_response_def execute_tool_def
        example_client_def failure_result_def text_entry_def tool_execution_entry_def
        final_response_entry_def)





text \<open>
  C3, as the code has it. In a turn with a client, whose first request the model answers
  with a response in which every tool-use segment goes through (so that nothing raises but,
  possibly, remote calls, with instances of \<^verbatim>\<open>Exception\<close>), the outcome has \<open>success\<close> true; for
  every tool use whose remote call raises \<open>e\<close>, and for every remote call of the turn that
  raised \<open>e\<close>, the results hold the tool-execution entry whose result has \<open>success\<close> false and
  \<open>error\<close> equal to \<^verbatim>\<open>str(e)\<close>.
\<close>

theorem process_request_remote_failure_recorded:
  assumes "mcp_client self = Some c"
      and "messages_create env tr (first_request (get_available_tools c) user_message)
             = Inr response"
      and "\<forall>u \<in> set (tool_uses response). goes_through env c response u"
  shows "\<exists>results tr'.
           process_request env self user_message tr
             = (Inr [(''success'', PyBool True),
                     (''results'', PyList results),
                     (''raw_response'', PyMessage response)], tr') \<and>
           (\<forall>tool_id tool_name tool_input e.
              ToolUseBlock tool_id tool_name tool_input \<in> set response \<and>
              (\<forall>tr0. call_tool env tr0 tool_name tool_input = Inl e) \<longrightarrow>
                PyDict [(''type'', PyStr ''tool_execution''),
                      (''tool_name'', PyStr tool_name),
                      (''tool_id'', PyStr tool_id),
                      (''input'', tool_input),
                      (''result'',
                       PyDict [(''success'', PyBool False),
                               (''error'', PyStr (str_exn e)),
                               (''tool_name'', PyStr tool_name)])]
                  \<in> set results) \<and>
           (\<forall>tool_name tool_input e.
              RemoteCall tool_name tool_input (Inl e) \<in> set (drop (length tr) tr') \<longrightarrow>
                (\<exists>tool_id.
                   PyDict [(''type'', PyStr ''tool_execution''),
                      (''tool_name'', PyStr tool_name),
                      (''tool_id'', PyStr tool_id),
                      (''input'', tool_input),
                      (''result'',
                       PyDict [(''success'', PyBool False),
                               (''error'', PyStr (str_exn e)),
                               (''tool_name'', PyStr tool_name)])]
                     \<in> set results))"
proof -
  let ?rq = "first_request (get_available_tools c) user_message"
  let ?tr1 = "tr @ [ModelRequest ?rq (Inr response)]"
  from handle_blocks_completes[OF assms(1,3), of ?tr1] obtain results segs where
    hb: "handle_blocks env self response response [] ?tr1 = (Inr results, ?tr1 @ concat segs)"
    by blast
  let ?tr' = "?tr1 @ concat segs"
  have turn: "process_request env self user_message tr
                = (Inr [(''success'', PyBool True),
                        (''results'', PyList results),
                        (''raw_response'', PyMessage response)], ?tr')"
    using hb assms(1,2)
    by (simp add: process_request_def process_request_try_first Let_def
          handle_claude_response_def)
  have by_segment:
    "tool_execution_entry n i a (failure_result n e) \<in> set results"
    if "ToolUseBlock i n a \<in> set response" "\<forall>tr0. call_tool env tr0 n a = Inl e"
    for i n a e
  proof -
    from handle_blocks_entries[OF hb that(1)] obtain tr0 where
      "tool_execution_entry n i a (result_of_call n (call_tool env tr0 n a)) \<in> set results"
      by auto
    with that(2) show ?thesis by (simp add: result_of_call_def)
  qed
  from handle_blocks_failed_remote[OF hb] obtain new more where
    new: "?tr' = ?tr1 @ new" and more: "results = [] @ more" and
    rec: "\<forall>n a e. RemoteCall n a (Inl e) \<in> set new \<longrightarrow>
            (\<exists>i. ToolUseBlock i n a \<in> set response \<and>
                 tool_execution_entry n i a (failure_result n e) \<in> set more)"
    by blast
  have by_call:
    "\<exists>i. tool_execution_entry n i a (failure_result n e) \<in> set results"
    if "RemoteCall n a (Inl e) \<in> set (drop (length tr) ?tr')" for n a e
  proof -
    from that new have "RemoteCall n a (Inl e) \<in> set new" by auto
    with rec more show ?thesis by simp blast
  qed
  from turn by_segment by_call show ?thesis
    unfolding tool_execution_entry_def failure_result_def by blast
qed

text \<open>
  Two turns in which the remote invocation raises. In the first the exception has an empty
  string and the entry's error is empty. In the second the follow-up request raises as well,
  and the turn's outcome has \<open>success\<close> false and no entry.
\<close>

theorem process_request_remote_failure_counterexample:
  "fst (process_request env_remote_fails example_integration ''List my events'' [])
     = Inr [(''success'', PyBool True),
        (''results'',
         PyList
           [PyDict [(''type'', PyStr ''text''), (''content'', PyStr ''Let me check.'')],
            PyDict [(''type'', PyStr ''tool_execution''),
                    (''tool_name'', PyStr ''list_calendar_events''),
                    (''tool_id'', PyStr ''toolu_1''),
                    (''input'', PyDict [(''maxResults'', PyInt 5)]),
                    (''result'',
                     PyDict [(''success'', PyBool False), (''error'', PyStr []),
                             (''tool_name'', PyStr ''list_calendar_events'')])],
            PyDict [(''type'', PyStr ''final_response''),
                    (''content'', PyStr ''The calendar is unreachable.'')]]),
        (''raw_response'', PyMessage example_response)]
   \<and> snd (process_request env_follow_up_fails example_integration ''List my events'' []) ! 1
     = RemoteCall ''list_calendar_events'' (PyDict [(''maxResults'', PyInt 5)])
         (Inl (PyException ''McpError'' ''Invalid arguments''))
   \<and> fst (process_request env_follow_up_fails example_integration ''List my events'' [])
     = Inr [(''success'', PyBool False),
        (''error'', PyStr ''Failed to process request: Connection error.''),
        (''response'', PyNone)]"
proof -
  have "process_request env_follow_up_fails example_integration ''List my events'' []
          = (Inr (failure_outcome (PyException ''APIConnectionError'' ''Connection error.'')),
             snd (process_request_try env_follow_up_fails example_integration
                    ''List my events'' []))"
    by (simp add: process_request_def example_turn_follow_up_fails)
  then show ?thesis
    by (simp add: example_turn_remote_fails example_turn_follow_up_fails failure_outcome_def)
qed

theorem process_request_remote_failure_recorded_witness:
  "\<exists>results tr'.
     process_request env_remote_fails example_integration ''List my events'' []
       = (Inr [(''success'', PyBool True),
               (''results'', PyList results),
               (''raw_response'', PyMessage example_response)], tr') \<and>
     PyDict [(''type'', PyStr ''tool_execution''),
             (''tool_name'', PyStr ''list_calendar_events''),
             (''tool_id'', PyStr ''toolu_1''),
             (''input'', PyDict [(''maxResults'', PyInt 5)]),
             (''result'',
              PyDict [(''success'', PyBool False),
                      (''error'', PyStr []),
                      (''tool_name'', PyStr ''list_calendar_events'')])]
       \<in> set results"
proof -
  have c: "mcp_client example_integration = Some example_client"
    by (simp add: example_integration_def)
  have m: "messages_create env_remote_fails []
             (first_request (get_available_tools example_client) ''List my events'')
           = Inr example_response"
    by (simp add: env_remote_fails_def first_request_def)
  have g: "\<forall>u \<in> set (tool_uses example_response).
             goes_through env_remote_fails example_client example_response u"
    by (simp add: goes_through_def env_remote_fails_def example_client_def
          example_response_def follow_up_request_def)
  have b: "ToolUseBlock ''toolu_1'' ''list_calendar_events'' (PyDict [(''maxResults'', PyInt 5)])
             \<in> set example_response"
    by (simp add: example_response_def)
  have f: "\<forall>tr0. call_tool env_remote_fails tr0 ''list_calendar_events''
                   (PyDict [(''maxResults'', PyInt 5)])
                 = Inl (PyException ''ClosedResourceError'' [])"
    by (simp add: env_remote_fails_def)
  from process_request_remote_failure_recorded[OF c m g] b f show ?thesis
    by fastforce
qed

text \<open>
  C4, as the code has it. With a client, a response in which every tool-use segment goes
  through is handled to the end, and the calls made are, for each tool-use segment in the
  order of the response, one remote invocation with the segment's name and input followed
  by one follow-up request under the segment's id: for \<open>N\<close> segments, \<open>N\<close> remote invocations
  and \<open>N\<close> follow-up requests.
\<close>

theorem handle_claude_response_round_trips:
  assumes "mcp_client self = Some c"
      and "\<forall>u \<in> set (tool_uses response). goes_through env c response u"
  shows "\<exists>outcome segs.
           handle_claude_response env self response tr = (Inr outcome, tr @ concat segs) \<and>
           list_all2 (round_trip response) (tool_uses response) segs \<and>
           length (filter is_remote_call (concat segs)) = length (tool_uses response) \<and>
           length (filter is_model_request (concat segs)) = length (tool_uses response)"
proof -
  from handle_blocks_completes[OF assms, of tr] obtain results segs where
    hb: "handle_blocks env self response response [] tr = (Inr results, tr @ concat segs)" and
    rt: "list_all2 (round_trip response) (tool_uses response) segs"
    by blast
  from hb have
    "handle_claude_response env self response tr
       = (Inr [(''success'', PyBool True), (''results'', PyList results),
               (''raw_response'', PyMessage response)], tr @ concat segs)"
    by (simp add: handle_claude_response_def)
  with rt round_trips_count[OF rt] show ?thesis by blast
qed

text \<open>
  A response with one tool-use segment that names a tool outside the registry: the handling
  raises, and neither a remote invocation nor a follow-up request has been made.
\<close>

theorem handle_claude_response_round_trips_counterexample:
  "handle_claude_response env_remote_fails example_integration
     [ToolUseBlock ''toolu_9'' ''delete_calendar'' (PyDict [])] []
   = (Inl (PyException ''ValueError'' (unknown_tool_message example_client ''delete_calendar'')),
      [])"
  by (simp add: handle_claude_response_def example_integration_def execute_tool_def
        example_client_def ValueError_def)

text \<open>
  The response with two tool uses: two round trips, the first segment's before the second's.
\<close>

theorem handle_claude_response_round_trips_witness:
  "length (tool_uses example_response_two) = 2 \<and>
   snd (handle_claude_response env_two_tools example_integration example_response_two [])
     = [RemoteCall ''list_calendar_events'' (PyDict [(''maxResults'', PyInt 5)])
          (Inr (PyList [])),
        ModelRequest (follow_up_request example_response_two ''toolu_1'' ''{}'')
          (Inr [TextBlock ''Done.'']),
        RemoteCall ''create_calendar_event'' (PyDict [(''summary'', PyStr ''Standup'')])
          (Inr (PyList [])),
        ModelRequest (follow_up_request example_response_two ''toolu_2'' ''{}'')
          (Inr [TextBlock ''Done.''])]"
proof -
  have c: "mcp_client example_integration = Some example_client"
    by (simp add: example_integration_def)
  have g: "\<forall>u \<in> set (tool_uses example_response_two).
             goes_through env_two_tools example_client example_response_two u"
    by (simp add: goes_through_def env_two_tools_def example_client_def
          example_response_two_def follow_up_request_def)
  from handle_claude_response_round_trips[OF c g, of "[]"] obtain outcome segs where
    h: "handle_claude_response env_two_tools example_integration example_response_two []
          = (Inr outcome, [] @ concat segs)"
       "list_all2 (round_trip example_response_two) (tool_uses example_response_two) segs"
    by blast
  have two: "tool_uses example_response_two
               = [(''toolu_1'', ''list_calendar_events'', PyDict [(''maxResults'', PyInt 5)]),
                  (''toolu_2'', ''create_calendar_event'', PyDict [(''summary'', PyStr ''Standup'')])]"
    by (simp add: example_response_two_def)
  from h(2) obtain s1 s2 where
    segs: "segs = [s1, s2]"
      "round_trip example_response_two
         (''toolu_1'', ''list_calendar_events'', PyDict [(''maxResults'', PyInt 5)]) s1"
      "round_trip example_response_two
         (''toolu_2'', ''create_calendar_event'', PyDict [(''summary'', PyStr ''Standup'')]) s2"
    unfolding two by (auto simp: list_all2_Cons1)
  have ev: "snd (handle_claude_response env_two_tools example_integration
                   example_response_two [])
              = [RemoteCall ''list_calendar_events'' (PyDict [(''maxResults'', PyInt 5)])
                   (Inr (PyList [])),
                 ModelRequest (follow_up_request example_response_two ''toolu_1'' ''{}'')
                   (Inr [TextBlock ''Done.'']),
                 RemoteCall ''create_calendar_event'' (PyDict [(''summary'', PyStr ''Standup'')])
                   (Inr (PyList [])),
                 ModelRequest (follow_up_request example_response_two ''toolu_2'' ''{}'')
                   (Inr [TextBlock ''Done.''])]"
    by (simp add: handle_claude_response_def example_integration_def execute_tool_def
          example_client_def example_response_two_def env_two_tools_def Let_def
          follow_up_request_def success_result_def)
  from two ev h segs show ?thesis by simp
qed

text \<open>
  C5. When the model answers the turn's request with text blocks only, the outcome of the
  turn has \<open>success\<close> true and its results are the text entries of these blocks, in order; the
  only call of the turn is that one request to the model, so no tool was executed.
\<close>

theorem process_request_text_only:
  assumes "mcp_client self = Some c"
      and "messages_create env tr (first_request (get_available_tools c) user_message)
             = Inr (map TextBlock ts)"
  shows "process_request env self user_message tr
           = (Inr [(''success'', PyBool True),
               (''results'',
                PyList (map (\<lambda>t. PyDict [(''type'', PyStr ''text''), (''content'', PyStr t)]) ts)),
               (''raw_response'', PyMessage (map TextBlock ts))],
              tr @ [ModelRequest (first_request (get_available_tools c) user_message)
                      (Inr (map TextBlock ts))])"
proof -
  have "map text_entry ts
          = map (\<lambda>t. PyDict [(''type'', PyStr ''text''), (''content'', PyStr t)]) ts"
    by (simp add: text_entry_def)
  with assms show ?thesis
    by (simp add: process_request_def process_request_try_def format_get_available_tools
          Let_def handle_claude_response_def handle_blocks_text_only)
qed

theorem process_request_text_only_witness:
  "process_request env_text_only example_integration ''List my events for this week'' []
     = (Inr [(''success'', PyBool True),
         (''results'',
          PyList [PyDict [(''type'', PyStr ''text''),
                          (''content'', PyStr ''You have no events this week.'')]]),
         (''raw_response'', PyMessage [TextBlock ''You have no events this week.''])],
        [ModelRequest
           (first_request (get_available_tools example_client) ''List my events for this week'')
           (Inr [TextBlock ''You have no events this week.''])])"
proof -
  have c: "mcp_client example_integration = Some example_client"
    by (simp add: example_integration_def)
  have m: "messages_create env_text_only []
             (first_request (get_available_tools example_client) ''List my events for this week'')
           = Inr (map TextBlock [''You have no events this week.''])"
    by (simp add: env_text_only_def)
  from process_request_text_only[OF c m] show ?thesis by simp
qed

end
